theory Spec2Isabelle
  imports Main
begin

section \<open>JavaScript values\<close>

text \<open>
  The sources tell \<^verbatim>\<open>undefined\<close> from \<^verbatim>\<open>null\<close> (the catch-all handler tests
  \<^verbatim>\<open>account === undefined\<close> and \<^verbatim>\<open>account === null\<close> separately, and the first entry
  of \<^verbatim>\<open>demandText\<close> is \<^verbatim>\<open>null\<close> while a read past its end is \<^verbatim>\<open>undefined\<close>), so a
  value that may be either is a \<open>nullable\<close>.  A name the type system guarantees to be
  a value or \<^verbatim>\<open>null\<close>/\<^verbatim>\<open>undefined\<close> without the code telling the two apart is an
  \<open>option\<close>.

  Strings are byte lists; a character outside ASCII is written as its UTF-8 bytes.

  The views use a \<^verbatim>\<open>number\<close> in a template literal and as the key of an array read, that
  is, through the string JavaScript writes for it, or hand it on unchanged.  A number is
  therefore an integer below \<open>10^21\<close> in magnitude, which JavaScript writes in decimal
  notation, or any other number (a fraction, a larger magnitude, \<^verbatim>\<open>NaN\<close>, an infinity),
  kept as the string JavaScript writes for it (\<^verbatim>\<open>2.5\<close>, \<^verbatim>\<open>1e+21\<close>, \<^verbatim>\<open>NaN\<close>), which is never
  the decimal notation of an integer.
\<close>

datatype 'a nullable = Undefined | Null | Value 'a

datatype number = Integer int | Other string

text \<open>\<^verbatim>\<open>xs[n]\<close> on an array, for a number \<open>n\<close>: the element when \<open>n\<close> is an index of the
  array, and \<^verbatim>\<open>undefined\<close> otherwise, also for a number that is not an integer (JavaScript
  raises nothing on such a read).\<close>

fun arrayGet :: "'a nullable list \<Rightarrow> number \<Rightarrow> 'a nullable" where
  "arrayGet xs (Integer i) =
     (if 0 \<le> i \<and> i < int (length xs) then xs ! nat i else Undefined)"
| "arrayGet xs (Other s) = Undefined"

text \<open>\<^verbatim>\<open>`${n}`\<close> for a number \<open>n\<close>: decimal notation for an integer, with a minus sign
  when negative.\<close>

function natToString :: "nat \<Rightarrow> string" where
  "natToString n =
     (if n < 10 then [''0123456789'' ! n]
      else natToString (n div 10) @ [''0123456789'' ! (n mod 10)])"
  by pat_completeness auto
termination
  by (relation "measure id") auto

declare natToString.simps [simp del]

fun numberToString :: "number \<Rightarrow> string" where
  "numberToString (Integer i) =
     (if i < 0 then CHR ''-'' # natToString (nat (- i)) else natToString (nat i))"
| "numberToString (Other s) = s"

section \<open>React elements\<close>

text \<open>
  What a component returns: a tree of elements.  An element is a host tag
  (\<^verbatim>\<open><div>\<close>) or a reference to another component (\<^verbatim>\<open><Num />\<close>), which the view
  does not expand; it has props and children.  A child may also be a string,
  \<^verbatim>\<open>null\<close> or \<^verbatim>\<open>undefined\<close>.  \<open>'j\<close> is the type of the CMS's \<^verbatim>\<open>Jsml\<close> content.
\<close>

datatype elementType = Host string | Component string

datatype 'j propValue = StringProp string | NumberProp number | BoolProp bool | JsmlProp 'j

datatype 'j node =
    Element elementType "(string \<times> 'j propValue) list" "'j node list"
  | Text string
  | NullNode
  | UndefinedNode

definition className :: "string \<Rightarrow> string \<times> 'j propValue" where
  "className c = (''className'', StringProp c)"

text \<open>\<^verbatim>\<open>{v}\<close> as a child, for \<open>v\<close> a string, \<^verbatim>\<open>null\<close> or \<^verbatim>\<open>undefined\<close>.\<close>

fun child :: "string nullable \<Rightarrow> 'j node" where
  "child (Value s) = Text s"
| "child Null = NullNode"
| "child Undefined = UndefinedNode"

text \<open>The children of an element, the targets of all hyperlinks in a tree and the
  \<^verbatim>\<open>className\<close>s of all its elements, in document order.\<close>

fun childNodes :: "'j node \<Rightarrow> 'j node list" where
  "childNodes (Element t ps cs) = cs"
| "childNodes _ = []"

fun hrefs :: "'j node \<Rightarrow> string list" where
  "hrefs (Element t ps cs) =
     (if t = Host ''a''
      then (case map_of ps ''href'' of Some (StringProp h) \<Rightarrow> [h] | _ \<Rightarrow> [])
      else []) @ concat (map hrefs cs)"
| "hrefs _ = []"

fun classNames :: "'j node \<Rightarrow> string list" where
  "classNames (Element t ps cs) =
     (case map_of ps ''className'' of Some (StringProp c) \<Rightarrow> [c] | _ \<Rightarrow> [])
     @ concat (map classNames cs)"
| "classNames _ = []"

text \<open>The elements of a tree whose \<^verbatim>\<open>className\<close> is the given string, in document order.\<close>

fun elementsByClass :: "string \<Rightarrow> 'j node \<Rightarrow> 'j node list" where
  "elementsByClass c (Element t ps cs) =
     (if map_of ps ''className'' = Some (StringProp c) then [Element t ps cs] else [])
     @ concat (map (elementsByClass c) cs)"
| "elementsByClass c _ = []"

section \<open>ExerciseView\<close>

text \<open>\<^verbatim>\<open>src/common/ExerciseView/index.tsx\<close>.\<close>

record 'j ExerciseViewProps =
  num :: number
  title :: string
  path :: string
  demand :: number
  hasSolution :: bool
  jsml :: 'j

definition demandText :: "string nullable list" where
  "demandText =
     [ Null,
       Value (''pohodi'' @ [CHR 0xC4, CHR 0x8D] @ ''ka''),
       Value (''to d'' @ [CHR 0xC3, CHR 0xA1, CHR 0xC5, CHR 0xA1]),
       Value ''zapni hlavu'',
       Value (''zava'' @ [CHR 0xC5, CHR 0x99] @ ''ova'' @ [CHR 0xC4, CHR 0x8D] @ ''ka''),
       Value (''smrt v p'' @ [CHR 0xC5, CHR 0x99, CHR 0xC3, CHR 0xAD] @ ''m''
              @ [CHR 0xC3, CHR 0xA9] @ ''m p'' @ [CHR 0xC5, CHR 0x99] @ ''enosu'') ]"

text \<open>The label of the solution control, \<^verbatim>\<open>Reseni\<close> with its diacritics.\<close>

definition reseni :: string where
  "reseni = [CHR 0xC5, CHR 0x98] @ ''e'' @ [CHR 0xC5, CHR 0xA1] @ ''en'' @ [CHR 0xC3, CHR 0xAD]"

definition ExerciseView :: "'j ExerciseViewProps \<Rightarrow> 'j node" where
  "ExerciseView p =
     Element (Host ''div'') [className ''exercise-assign'']
       [ Element (Component ''Num'')
           [className ''exercise-assign__num'', (''value'', NumberProp (num p))] [],
         Element (Host ''div'') [className ''exercise-assign__head'']
           [ Element (Host ''h3'') [className ''exercise-assign__title''] [Text (title p)],
             Element (Host ''div'') [className ''exercise-assign__demand'']
               [ Element (Host ''div'')
                   [className (''demand demand--'' @ numberToString (demand p))] [],
                 Element (Host ''div'') [className ''demand-text'']
                   [child (arrayGet demandText (demand p))] ] ],
         Element (Host ''div'') [className ''exercise-assign__body'']
           [ Element (Component ''JsmlContainer'') [(''jsml'', JsmlProp (jsml p))] [] ],
         (if hasSolution p then
            Element (Host ''div'') [className ''exercise-assign__controls'']
              [ if path p = ''forbidden''
                then
                  Element (Host ''span'') [className ''entry-link entry-link--locked btn'']
                    [ Element (Host ''i'') [className ''icon-lock''] [],
                      Element (Host ''span'') [] [Text reseni] ]
                else
                  Element (Host ''a'')
                    [className ''entry-link btn'', (''href'', StringProp (path p))]
                    [Text reseni] ]
          else NullNode) ]"

section \<open>The server: data\<close>

text \<open>
  The server module (\<^verbatim>\<open>src/unnamed/part_000\<close>).  Access checks come from the CMS library;
  the server only builds them, so \<^verbatim>\<open>new AccessGrantAll()\<close> and
  \<^verbatim>\<open>AccessClaimCheck.create(user, ...claims)\<close> are constructors that keep their arguments.
\<close>

datatype Access = Public | Registered

record User =
  login :: string
  access :: Access

datatype AccessCheck = AccessGrantAll | AccessClaimCheck User "string list"

record Claims =
  content :: "string list"

text \<open>
  \<^verbatim>\<open>server-config.json5\<close>, at the shape the handlers read it: \<^verbatim>\<open>defaultAccess\<close> is a string
  (compared with \<^verbatim>\<open>'granted'\<close>) or an object whose \<^verbatim>\<open>claims\<close>, when defined, hold a
  \<^verbatim>\<open>content\<close> array of strings.  Reading \<^verbatim>\<open>.claims\<close> of a string yields \<^verbatim>\<open>undefined\<close>.
  A file of another shape (no \<^verbatim>\<open>defaultAccess\<close>, or claims without a \<^verbatim>\<open>content\<close> array)
  makes line 147 or line 150 throw; such a file is not a configuration of this model.
\<close>

datatype DefaultAccess = DefaultAccessString string | DefaultAccessObject "Claims option"

fun claimsOf :: "DefaultAccess \<Rightarrow> Claims option" where
  "claimsOf (DefaultAccessString s) = None"
| "claimsOf (DefaultAccessObject c) = c"

record GithubApp =
  clientId :: string
  clientSecret :: string

record Config =
  serverUrl :: string
  sessionSecret :: string
  githubApp :: GithubApp
  defaultAccess :: DefaultAccess

record Stats =
  "bundle" :: string

text \<open>An account as the handler reads it: \<^verbatim>\<open>account.user.login\<close> and
  \<^verbatim>\<open>account.claims.content\<close>.\<close>

record AccountUser =
  login :: string

record Account =
  user :: AccountUser
  claims :: Claims

text \<open>The token's payload (\<^verbatim>\<open>req.auth\<close>), the user GitHub reports and the stored user
  (lines 98 to 104).\<close>

record JwtPayload =
  login :: string

record GithubUser =
  login :: string
  name :: "string option"
  avatar_url :: string
  email :: "string option"

record DbUser =
  login :: string
  name :: string
  avatarUrl :: string
  email :: "string option"
  groups :: "string list"

text \<open>
  A request as the routes see it, after the global middleware of lines 40 to 61 has
  passed it on: \<open>pathSegments\<close> are the non-empty segments of its path, \<open>auth\<close> is the
  verified token's payload, if the request carried a token.
\<close>

datatype HttpMethod = GET | HEAD | POST | OtherMethod string

record Query =
  code :: "string option"
  returnUrl :: "string option"

record Session =
  returnUrl :: "string option"

record Request =
  httpMethod :: HttpMethod
  pathSegments :: "string list"
  url :: string
  originalUrl :: string
  query :: Query
  session :: Session
  auth :: "JwtPayload option"

datatype Body = NoBody | Html string | File string

record Response =
  status :: nat
  location :: "string option"
  cookies :: "(string \<times> string) list"
  clearedCookies :: "string list"
  body :: Body

definition redirect :: "nat \<Rightarrow> string \<Rightarrow> Response" where
  "redirect st target =
     \<lparr>status = st, location = Some target, cookies = [], clearedCookies = [], body = NoBody\<rparr>"

definition send :: "string \<Rightarrow> Response" where
  "send html =
     \<lparr>status = 200, location = None, cookies = [], clearedCookies = [], body = Html html\<rparr>"

definition notFound :: Response where
  "notFound =
     \<lparr>status = 404, location = None, cookies = [], clearedCookies = [], body = NoBody\<rparr>"

text \<open>What a handler that throws, or whose promise rejects, leaves behind instead of a
  response.\<close>

datatype Error = TypeError | RequestFailed

text \<open>The per-request store, the props of \<^verbatim>\<open>ServerContextProvider\<close> and what rendering
  yields (lines 174 to 177).  The handler creates the store empty and serializes it after
  rendering; what the components put into it is kept as strings by key.\<close>

type_synonym Store = "(string \<times> string) list"

record Logins =
  githubClientId :: string

record 'cms ServerContextProps =
  cms :: 'cms
  account :: "Account nullable"
  accessCheck :: AccessCheck
  store :: Store
  logins :: Logins
  url :: string
  baseUrl :: string

record Helmet =
  htmlAttributes :: string
  title :: string
  meta :: string
  link :: string
  script :: string
  bodyAttributes :: string

record Rendered =
  appContent :: string
  helmet :: Helmet
  renderedStore :: Store

text \<open>
  What the server calls and this module does not define: the HTTP client, the query
  string parser, the user collection (\<^verbatim>\<open>UserModel\<close>) over a database state \<open>'db\<close>, the
  token signer, \<^verbatim>\<open>getAccount\<close>, the static file server, the CMS and API routers (\<open>None\<close>
  when the router passes the request on), React's rendering of the provider's props at a
  router location, and the store's serializer.  The two requests to GitHub may fail
  (\<open>None\<close>); the other calls are taken to return.
\<close>

record ('db, 'cms) Externals =
  axiosGetAccessToken :: "string \<Rightarrow> string \<Rightarrow> string option \<Rightarrow> string option"
  queryStringParse :: "string \<Rightarrow> (string \<times> string) list"
  axiosGetGithubUser :: "string \<Rightarrow> GithubUser option"
  findOne :: "'db \<Rightarrow> string \<Rightarrow> DbUser option"
  save :: "'db \<Rightarrow> DbUser \<Rightarrow> 'db"
  jwtSign :: "JwtPayload \<Rightarrow> string \<Rightarrow> string"
  getAccount :: "'db \<Rightarrow> string \<Rightarrow> Account nullable"
  serveStatic :: "string \<Rightarrow> Request \<Rightarrow> Response"
  cmsRouter :: "Request \<Rightarrow> Response option"
  apiRouter :: "'db \<Rightarrow> Request \<Rightarrow> ('db \<times> Response) option"
  renderApp :: "'cms ServerContextProps \<Rightarrow> string \<Rightarrow> Rendered"
  json5Stringify :: "Store \<Rightarrow> string"

section \<open>The server: handlers\<close>

text \<open>\<^verbatim>\<open>`${v}`\<close> for a string that may be \<^verbatim>\<open>undefined\<close>.\<close>

definition templateString :: "string option \<Rightarrow> string" where
  "templateString v = (case v of None \<Rightarrow> ''undefined'' | Some s \<Rightarrow> s)"

text \<open>\<^verbatim>\<open>GET /odhlasit\<close> (lines 70 to 73).\<close>

definition odhlasit :: Response where
  "odhlasit = (redirect 302 ''/'')\<lparr>clearedCookies := [''token'']\<rparr>"

text \<open>The user record of lines 98 to 104.\<close>

definition newUser :: "GithubUser \<Rightarrow> DbUser" where
  "newUser githubUser =
     \<lparr>DbUser.login = GithubUser.login githubUser,
      DbUser.name = (case GithubUser.name githubUser of
                       None \<Rightarrow> GithubUser.login githubUser | Some n \<Rightarrow> n),
      avatarUrl = avatar_url githubUser,
      DbUser.email = GithubUser.email githubUser,
      groups = []\<rparr>"

text \<open>\<^verbatim>\<open>GET /prihlasit/github\<close> (lines 75 to 113).  Either request to GitHub may fail; the
  handler's promise then rejects and no response is written.\<close>

definition prihlasitGithub ::
  "Config \<Rightarrow> ('db, 'cms) Externals \<Rightarrow> 'db \<Rightarrow> Request \<Rightarrow> 'db \<times> (Error + Response)" where
  "prihlasitGithub config ext db req =
     (case axiosGetAccessToken ext (clientId (githubApp config))
             (clientSecret (githubApp config)) (code (query req)) of
        None \<Rightarrow> (db, Inl RequestFailed)
      | Some data \<Rightarrow>
          (let parsed = queryStringParse ext data in
           case axiosGetGithubUser ext
                  (''token '' @ templateString (map_of parsed ''access_token'')) of
             None \<Rightarrow> (db, Inl RequestFailed)
           | Some githubUser \<Rightarrow>
               (let (db', dbUser) =
                      (case findOne ext db (GithubUser.login githubUser) of
                         None \<Rightarrow> (save ext db (newUser githubUser), newUser githubUser)
                       | Some found \<Rightarrow> (db, found));
                    token = jwtSign ext \<lparr>JwtPayload.login = DbUser.login dbUser\<rparr>
                              (sessionSecret config)
                in (db', Inr ((redirect 302
                                 (case Session.returnUrl (session req) of
                                    None \<Rightarrow> ''/'' | Some r \<Rightarrow> r))
                              \<lparr>cookies := [(''token'', token)]\<rparr>)))))"

text \<open>The middleware mounted at \<^verbatim>\<open>/prihlasit\<close> (lines 115 to 123): a response, or the
  request passed on with its session updated.  \<open>Query.returnUrl\<close> is \<open>None\<close> when the
  query parameter is not a string.\<close>

definition prihlasit :: "Request \<Rightarrow> Response + Request" where
  "prihlasit req =
     (let returnUrl = (case Query.returnUrl (query req) of Some r \<Rightarrow> r | None \<Rightarrow> ''/'') in
      if auth req \<noteq> None then Inl (redirect 302 returnUrl)
      else Inr (req\<lparr>session := (session req)\<lparr>Session.returnUrl := Some returnUrl\<rparr>\<rparr>))"

text \<open>\<^verbatim>\<open>GET /kurzy/:course/:chapter\<close> (lines 125 to 127), from the route's parameters.\<close>

definition kurzyChapter :: "(string \<times> string) list \<Rightarrow> Response" where
  "kurzyChapter params =
     redirect 301 (''/kurzy/'' @ templateString (map_of params ''course'')
                   @ ''/#'' @ templateString (map_of params ''chapter''))"

text \<open>The catch-all route (lines 129 to 195), in the order of the source: the account
  (lines 132, 133), where an empty login is as falsy as a missing one;\<close>

definition resolveAccount :: "('db, 'cms) Externals \<Rightarrow> 'db \<Rightarrow> Request \<Rightarrow> Account nullable" where
  "resolveAccount ext db req =
     (case auth req of
        None \<Rightarrow> Null
      | Some payload \<Rightarrow>
          if JwtPayload.login payload = [] then Null
          else getAccount ext db (JwtPayload.login payload))"

text \<open>the access user (lines 135 to 138);\<close>

definition accessUser :: "Account nullable \<Rightarrow> User" where
  "accessUser acc =
     \<lparr>User.login = (case acc of Value a \<Rightarrow> AccountUser.login (user a) | _ \<Rightarrow> []),
      access = (if acc = Undefined then Public else Registered)\<rparr>"

text \<open>the default access check (lines 140 to 152);\<close>

definition defaultAccessCheck :: "Config \<Rightarrow> User \<Rightarrow> AccessCheck" where
  "defaultAccessCheck config u =
     (let initial = AccessClaimCheck u [''/kurzy''] in
      if defaultAccess config = DefaultAccessString ''granted'' then AccessGrantAll
      else (case claimsOf (defaultAccess config) of
              Some c \<Rightarrow> AccessClaimCheck u (content c)
            | None \<Rightarrow> initial))"

text \<open>the \<^verbatim>\<open>accessCheck\<close> prop (lines 158 to 160), where reading \<^verbatim>\<open>.claims\<close> of
  \<^verbatim>\<open>undefined\<close> throws;\<close>

definition providerAccessCheck ::
  "Account nullable \<Rightarrow> User \<Rightarrow> AccessCheck \<Rightarrow> Error + AccessCheck" where
  "providerAccessCheck acc u dflt =
     (case acc of
        Null \<Rightarrow> Inr dflt
      | Value a \<Rightarrow> Inr (AccessClaimCheck u (content (claims a)))
      | Undefined \<Rightarrow> Inl TypeError)"

text \<open>the access check of a request, from the three steps above;\<close>

definition requestAccessCheck ::
  "Config \<Rightarrow> ('db, 'cms) Externals \<Rightarrow> 'db \<Rightarrow> Request \<Rightarrow> Error + AccessCheck" where
  "requestAccessCheck config ext db req =
     (let acc = resolveAccount ext db req;
          u = accessUser acc
      in providerAccessCheck acc u (defaultAccessCheck config u))"

text \<open>the document (lines 178 to 194);\<close>

definition page :: "Helmet \<Rightarrow> string \<Rightarrow> string \<Rightarrow> string \<Rightarrow> string" where
  "page h storeJson bundleName appHtml =
     ''<!DOCTYPE html>\<newline>    <html '' @ htmlAttributes h
     @ ''>\<newline>      <head>\<newline>        '' @ Helmet.title h
     @ ''\<newline>        '' @ meta h
     @ ''\<newline>        '' @ link h
     @ ''\<newline>        '' @ script h
     @ ''\<newline>      </head>\<newline>      <body '' @ bodyAttributes h
     @ ''>\<newline>        <script>\<newline>          window.__STORE__ = '' @ storeJson
     @ ''\<newline>        </script>\<newline>        <script defer src=\"/'' @ bundleName
     @ ''\"></script>\<newline>        <div id=\"app\">'' @ appHtml
     @ ''</div>\<newline>      </body>\<newline>    </html>\<newline>  ''"

text \<open>the props of the provider (lines 155 to 166);\<close>

definition providerProps ::
  "Config \<Rightarrow> 'cms \<Rightarrow> ('db, 'cms) Externals \<Rightarrow> 'db \<Rightarrow> Request
     \<Rightarrow> Error + 'cms ServerContextProps" where
  "providerProps config cmsInstance ext db req =
     (case requestAccessCheck config ext db req of
        Inl e \<Rightarrow> Inl e
      | Inr check \<Rightarrow>
          Inr \<lparr>cms = cmsInstance,
               account = resolveAccount ext db req,
               accessCheck = check,
               store = [],
               logins = \<lparr>githubClientId = clientId (githubApp config)\<rparr>,
               ServerContextProps.url = originalUrl req,
               baseUrl = serverUrl config\<rparr>)"

text \<open>and the handler.\<close>

definition catchAll ::
  "Config \<Rightarrow> Stats \<Rightarrow> 'cms \<Rightarrow> ('db, 'cms) Externals \<Rightarrow> 'db \<Rightarrow> Request \<Rightarrow> Error + Response" where
  "catchAll config stats cmsInstance ext db req =
     (case providerProps config cmsInstance ext db req of
        Inl e \<Rightarrow> Inl e
      | Inr props \<Rightarrow>
          (let r = renderApp ext props (Request.url req)
           in Inr (send (page (helmet r) (json5Stringify ext (renderedStore r))
                           (bundle stats) (appContent r)))))"

section \<open>The server: routing\<close>

text \<open>
  The routes of lines 63 to 129, tried in the order of their registration.  A route
  registered with \<^verbatim>\<open>use\<close> applies to every method and to every path under its mount
  point; one registered with \<^verbatim>\<open>get\<close> applies to \<^verbatim>\<open>GET\<close> (and \<^verbatim>\<open>HEAD\<close>) requests whose
  whole path matches its pattern.  Literal segments compare without regard to letter
  case, the framework's default; a parameter matches any non-empty segment.
\<close>

definition lowerChar :: "char \<Rightarrow> char" where
  "lowerChar c =
     (case map_of (zip ''ABCDEFGHIJKLMNOPQRSTUVWXYZ'' ''abcdefghijklmnopqrstuvwxyz'') c of
        Some l \<Rightarrow> l
      | None \<Rightarrow> c)"

definition toLowerCase :: "string \<Rightarrow> string" where
  "toLowerCase s = map lowerChar s"

datatype segmentPattern = Literal string | Param string

datatype pathPattern = Segments "segmentPattern list" | Star

fun matchSegments :: "segmentPattern list \<Rightarrow> string list \<Rightarrow> (string \<times> string) list option" where
  "matchSegments [] [] = Some []"
| "matchSegments (Literal l # ps) (s # ss) =
     (if toLowerCase s = toLowerCase l then matchSegments ps ss else None)"
| "matchSegments (Param n # ps) (s # ss) =
     (if s \<noteq> [] then map_option ((#) (n, s)) (matchSegments ps ss) else None)"
| "matchSegments _ _ = None"

fun matchPath :: "pathPattern \<Rightarrow> string list \<Rightarrow> (string \<times> string) list option" where
  "matchPath Star segs = Some []"
| "matchPath (Segments ps) segs = matchSegments ps segs"

definition mounted :: "string list \<Rightarrow> string list \<Rightarrow> bool" where
  "mounted mountPoint segs =
     (length mountPoint \<le> length segs
      \<and> map toLowerCase (take (length mountPoint) segs) = map toLowerCase mountPoint)"

definition isGet :: "Request \<Rightarrow> bool" where
  "isGet req = (httpMethod req = GET \<or> httpMethod req = HEAD)"

text \<open>What a route does with a request: it ends it, with a response or with an error
  and with the database as it leaves it, or it passes the request on.\<close>

datatype 'db Step = Finish 'db "Error + Response" | Pass Request

type_synonym 'db Layer = "(Request \<Rightarrow> bool) \<times> ('db \<Rightarrow> Request \<Rightarrow> 'db Step)"

definition useAt :: "string list \<Rightarrow> ('db \<Rightarrow> Request \<Rightarrow> 'db Step) \<Rightarrow> 'db Layer" where
  "useAt mountPoint handler = (\<lambda>req. mounted mountPoint (pathSegments req), handler)"

definition getAt ::
  "pathPattern \<Rightarrow> ((string \<times> string) list \<Rightarrow> 'db \<Rightarrow> Request \<Rightarrow> 'db Step) \<Rightarrow> 'db Layer" where
  "getAt pattern handler =
     (\<lambda>req. isGet req \<and> matchPath pattern (pathSegments req) \<noteq> None,
      \<lambda>db req. case matchPath pattern (pathSegments req) of
                  Some params \<Rightarrow> handler params db req
                | None \<Rightarrow> Pass req)"

text \<open>A request no route ends gets the framework's 404.\<close>

fun dispatch :: "'db Layer list \<Rightarrow> 'db \<Rightarrow> Request \<Rightarrow> 'db \<times> (Error + Response)" where
  "dispatch [] db req = (db, Inr notFound)"
| "dispatch ((applies, handler) # layers) db req =
     (if applies req
      then (case handler db req of
              Finish db' r \<Rightarrow> (db', r)
            | Pass req' \<Rightarrow> dispatch layers db req')
      else dispatch layers db req)"

definition routes ::
  "Config \<Rightarrow> Stats \<Rightarrow> 'cms \<Rightarrow> ('db, 'cms) Externals \<Rightarrow> 'db Layer list" where
  "routes config stats cmsInstance ext =
     [ useAt [''assets''] (\<lambda>db req. Finish db (Inr (serveStatic ext ''./assets'' req))),
       useAt [''js''] (\<lambda>db req. Finish db (Inr (serveStatic ext ''./js'' req))),
       useAt [''changelog''] (\<lambda>db req. Finish db (Inr (serveStatic ext ''../changelog'' req))),
       useAt [''cms'']
         (\<lambda>db req. case cmsRouter ext req of
                      Some r \<Rightarrow> Finish db (Inr r) | None \<Rightarrow> Pass req),
       useAt [''api'']
         (\<lambda>db req. case apiRouter ext db req of
                      Some (db', r) \<Rightarrow> Finish db' (Inr r) | None \<Rightarrow> Pass req),
       getAt (Segments [Literal ''odhlasit'']) (\<lambda>params db req. Finish db (Inr odhlasit)),
       getAt (Segments [Literal ''prihlasit'', Literal ''github''])
         (\<lambda>params db req. case prihlasitGithub config ext db req of
                             (db', r) \<Rightarrow> Finish db' r),
       useAt [''prihlasit'']
         (\<lambda>db req. case prihlasit req of
                      Inl r \<Rightarrow> Finish db (Inr r) | Inr req' \<Rightarrow> Pass req'),
       getAt (Segments [Literal ''kurzy'', Param ''course'', Param ''chapter''])
         (\<lambda>params db req. Finish db (Inr (kurzyChapter params))),
       getAt Star (\<lambda>params db req. Finish db (catchAll config stats cmsInstance ext db req)) ]"


definition server ::
  "Config \<Rightarrow> Stats \<Rightarrow> 'cms \<Rightarrow> ('db, 'cms) Externals \<Rightarrow> 'db \<Rightarrow> Request
     \<Rightarrow> 'db \<times> (Error + Response)" where
  "server config stats cmsInstance ext db req =
     dispatch (routes config stats cmsInstance ext) db req"

section \<open>An example environment\<close>

text \<open>
  A small instance of everything a handler is given, on which the theorems below are
  evaluated: users are kept in a list, the token of a login is the secret followed by
  the login, GitHub knows the code \<^verbatim>\<open>good\<close> as the user \<^verbatim>\<open>alice\<close>, an account's content
  claims are its user's groups, and rendering yields the location in a \<^verbatim>\<open><main>\<close>
  element.
\<close>

definition exampleConfig :: "DefaultAccess \<Rightarrow> Config" where
  "exampleConfig d =
     \<lparr>serverUrl = ''https://kodim.cz'', sessionSecret = ''s3cret'',
      githubApp = \<lparr>clientId = ''client'', clientSecret = ''hidden''\<rparr>,
      defaultAccess = d\<rparr>"

definition exampleStats :: Stats where
  "exampleStats = \<lparr>bundle = ''js/bundle.js''\<rparr>"

definition alice :: GithubUser where
  "alice = \<lparr>GithubUser.login = ''alice'', GithubUser.name = None,
            avatar_url = ''https://github.com/alice.png'', GithubUser.email = None\<rparr>"

definition exampleAccount :: "DbUser \<Rightarrow> Account" where
  "exampleAccount u =
     \<lparr>user = \<lparr>AccountUser.login = DbUser.login u\<rparr>, claims = \<lparr>content = groups u\<rparr>\<rparr>"

definition exampleExternals :: "(DbUser list, unit) Externals" where
  "exampleExternals =
     \<lparr>axiosGetAccessToken = (\<lambda>cid secret c. map_option (\<lambda>x. ''access_token='' @ x) c),
      queryStringParse = (\<lambda>d. [(take 12 d, drop 13 d)]),
      axiosGetGithubUser = (\<lambda>h. if h = ''token good'' then Some alice else None),
      findOne = (\<lambda>db l. find (\<lambda>u. DbUser.login u = l) db),
      save = (\<lambda>db u. db @ [u]),
      jwtSign = (\<lambda>payload secret. secret @ '':'' @ JwtPayload.login payload),
      getAccount = (\<lambda>db l. case find (\<lambda>u. DbUser.login u = l) db of
                             None \<Rightarrow> Null | Some u \<Rightarrow> Value (exampleAccount u)),
      serveStatic = (\<lambda>dir req. notFound),
      cmsRouter = (\<lambda>req. None),
      apiRouter = (\<lambda>db req. None),
      renderApp = (\<lambda>props loc.
         \<lparr>appContent = ''<main>'' @ loc @ ''</main>'',
          helmet = \<lparr>htmlAttributes = ''lang=cs'', Helmet.title = ''<title>Kodim</title>'',
                    meta = [], link = [], script = [], bodyAttributes = []\<rparr>,
          renderedStore = store props\<rparr>),
      json5Stringify = (\<lambda>s. ''{'' @ concat (map (\<lambda>(k, v). k @ '':'' @ v @ '','') s) @ ''}'')\<rparr>"


definition exampleRequest :: "string list \<Rightarrow> JwtPayload option \<Rightarrow> Request" where
  "exampleRequest segs a =
     \<lparr>httpMethod = GET, pathSegments = segs,
      Request.url = concat (map ((@) ''/'') segs),
      originalUrl = concat (map ((@) ''/'') segs),
      query = \<lparr>code = Some ''good'', Query.returnUrl = None\<rparr>,
      session = \<lparr>Session.returnUrl = Some ''/kurzy''\<rparr>,
      auth = a\<rparr>"

definition storedAlice :: DbUser where
  "storedAlice =
     \<lparr>DbUser.login = ''alice'', DbUser.name = ''Alice'',
      avatarUrl = ''https://github.com/alice.png'', DbUser.email = None,
      groups = [''/kurzy/daweb'']\<rparr>"

section \<open>Properties of the views\<close>

lemma hrefs_child: "hrefs (child v) = []"
  by (cases v) simp_all

lemma classNames_child: "classNames (child v) = []"
  by (cases v) simp_all

lemma elementsByClass_child: "elementsByClass c (child v) = []"
  by (cases v) simp_all

lemma demandText_element:
  "elementsByClass ''demand-text'' (ExerciseView p)
   = [Element (Host ''div'') [className ''demand-text'']
        [child (arrayGet demandText (demand p))]]"
  by (simp add: ExerciseView_def className_def elementsByClass_child)

text \<open>
  Claim C10.  The demand label lookup of the exercise view is total.  For a demand from
  1 to 5 it yields a non-empty string fixed by the demand, and every view with that
  demand shows that string as the text of its \<^verbatim>\<open>demand-text\<close> element.  For demand 0 it
  yields \<^verbatim>\<open>null\<close>, and for any other demand (an integer below 0 or above 5, or a number
  that is not an integer) it yields \<^verbatim>\<open>undefined\<close>; the \<^verbatim>\<open>demand-text\<close> element then has that
  value as its child, which shows nothing.  For every demand the view is an element tree
  with exactly one \<^verbatim>\<open>demand-text\<close> element with exactly one child: no demand makes the
  lookup, and with it the component, fail.
\<close>

theorem demandText_lookup:
  "(1 \<le> d \<and> d \<le> 5
      \<longrightarrow> (\<exists>s. s \<noteq> [] \<and> arrayGet demandText (Integer d) = Value s
            \<and> (\<forall>q :: 'j ExerciseViewProps. demand q = Integer d
                  \<longrightarrow> elementsByClass ''demand-text'' (ExerciseView q)
                      = [Element (Host ''div'') [className ''demand-text''] [Text s]])))
   \<and> arrayGet demandText (Integer 0) = Null
   \<and> (demand p = Integer 0
      \<longrightarrow> elementsByClass ''demand-text'' (ExerciseView p)
          = [Element (Host ''div'') [className ''demand-text''] [NullNode]])
   \<and> (d < 0 \<or> 5 < d \<longrightarrow> arrayGet demandText (Integer d) = Undefined)
   \<and> arrayGet demandText (Other t) = Undefined
   \<and> (demand p = Other t \<or> (demand p = Integer d \<and> (d < 0 \<or> 5 < d))
      \<longrightarrow> elementsByClass ''demand-text'' (ExerciseView p)
          = [Element (Host ''div'') [className ''demand-text''] [UndefinedNode]])
   \<and> (\<exists>c. elementsByClass ''demand-text'' (ExerciseView (p :: 'j ExerciseViewProps))
            = [Element (Host ''div'') [className ''demand-text''] [c]])"
proof -
  have labelled: "1 \<le> d \<and> d \<le> 5
      \<longrightarrow> (\<exists>s. s \<noteq> [] \<and> arrayGet demandText (Integer d) = Value s
            \<and> (\<forall>q :: 'j ExerciseViewProps. demand q = Integer d
                  \<longrightarrow> elementsByClass ''demand-text'' (ExerciseView q)
                      = [Element (Host ''div'') [className ''demand-text''] [Text s]]))"
  proof
    assume "1 \<le> d \<and> d \<le> 5"
    then have "d = 1 \<or> d = 2 \<or> d = 3 \<or> d = 4 \<or> d = 5"
      by arith
    then have "\<exists>s. s \<noteq> [] \<and> arrayGet demandText (Integer d) = Value s"
      by (auto simp: demandText_def)
    then obtain s where s: "s \<noteq> []" "arrayGet demandText (Integer d) = Value s"
      by blast
    have "\<forall>q :: 'j ExerciseViewProps. demand q = Integer d
            \<longrightarrow> elementsByClass ''demand-text'' (ExerciseView q)
                = [Element (Host ''div'') [className ''demand-text''] [Text s]]"
    proof (intro allI impI)
      fix q :: "'j ExerciseViewProps"
      assume "demand q = Integer d"
      then have "arrayGet demandText (demand q) = Value s"
        by (simp only: s)
      then show "elementsByClass ''demand-text'' (ExerciseView q)
                = [Element (Host ''div'') [className ''demand-text''] [Text s]]"
        by (simp only: demandText_element child.simps)
    qed
    with s show "\<exists>s. s \<noteq> [] \<and> arrayGet demandText (Integer d) = Value s
            \<and> (\<forall>q :: 'j ExerciseViewProps. demand q = Integer d
                  \<longrightarrow> elementsByClass ''demand-text'' (ExerciseView q)
                      = [Element (Host ''div'') [className ''demand-text''] [Text s]])"
      by blast
  qed
  have zero: "arrayGet demandText (Integer 0) = Null"
    by (simp add: demandText_def)
  have zeroView: "demand p = Integer 0
      \<longrightarrow> elementsByClass ''demand-text'' (ExerciseView p)
          = [Element (Host ''div'') [className ''demand-text''] [NullNode]]"
  proof
    assume "demand p = Integer 0"
    then have "arrayGet demandText (demand p) = Null"
      by (simp only: zero)
    then show "elementsByClass ''demand-text'' (ExerciseView p)
          = [Element (Host ''div'') [className ''demand-text''] [NullNode]]"
      by (simp only: demandText_element child.simps)
  qed
  have outside: "d < 0 \<or> 5 < d \<longrightarrow> arrayGet demandText (Integer d) = Undefined"
    by (auto simp: demandText_def)
  have other: "arrayGet demandText (Other t) = Undefined"
    by simp
  have outsideView: "demand p = Other t \<or> (demand p = Integer d \<and> (d < 0 \<or> 5 < d))
      \<longrightarrow> elementsByClass ''demand-text'' (ExerciseView p)
          = [Element (Host ''div'') [className ''demand-text''] [UndefinedNode]]"
  proof
    assume "demand p = Other t \<or> (demand p = Integer d \<and> (d < 0 \<or> 5 < d))"
    then have "arrayGet demandText (demand p) = Undefined"
    proof
      assume "demand p = Other t"
      then show ?thesis by (simp only: other)
    next
      assume "demand p = Integer d \<and> (d < 0 \<or> 5 < d)"
      then show ?thesis using outside by (simp del: arrayGet.simps)
    qed
    then show "elementsByClass ''demand-text'' (ExerciseView p)
          = [Element (Host ''div'') [className ''demand-text''] [UndefinedNode]]"
      by (simp only: demandText_element child.simps)
  qed
  have always: "\<exists>c. elementsByClass ''demand-text'' (ExerciseView p)
            = [Element (Host ''div'') [className ''demand-text''] [c]]"
    by (simp add: demandText_element)
  show ?thesis
    by (rule conjI [OF labelled conjI [OF zero conjI [OF zeroView conjI [OF outside
          conjI [OF other conjI [OF outsideView always]]]]]])
qed

theorem demandText_lookup_witness:
  "arrayGet demandText (Integer 3) = Value ''zapni hlavu''
   \<and> elementsByClass ''demand-text''
       (ExerciseView \<lparr>num = Integer 2, ExerciseViewProps.title = ''Cykly'', path = ''forbidden'',
                      demand = Integer 3, hasSolution = True, jsml = ()\<rparr>)
     = [Element (Host ''div'') [className ''demand-text''] [Text ''zapni hlavu'']]
   \<and> elementsByClass ''demand-text''
       (ExerciseView \<lparr>num = Integer 2, ExerciseViewProps.title = ''Cykly'', path = ''forbidden'',
                      demand = Integer 0, hasSolution = True, jsml = ()\<rparr>)
     = [Element (Host ''div'') [className ''demand-text''] [NullNode]]
   \<and> elementsByClass ''demand-text''
       (ExerciseView \<lparr>num = Integer 2, ExerciseViewProps.title = ''Cykly'', path = ''forbidden'',
                      demand = Integer 6, hasSolution = True, jsml = ()\<rparr>)
     = [Element (Host ''div'') [className ''demand-text''] [UndefinedNode]]
   \<and> elementsByClass ''demand-text''
       (ExerciseView \<lparr>num = Integer 2, ExerciseViewProps.title = ''Cykly'', path = ''forbidden'',
                      demand = Integer (- 1), hasSolution = True, jsml = ()\<rparr>)
     = [Element (Host ''div'') [className ''demand-text''] [UndefinedNode]]
   \<and> elementsByClass ''demand-text''
       (ExerciseView \<lparr>num = Integer 2, ExerciseViewProps.title = ''Cykly'', path = ''forbidden'',
                      demand = Other ''2.5'', hasSolution = True, jsml = ()\<rparr>)
     = [Element (Host ''div'') [className ''demand-text''] [UndefinedNode]]"
proof -
  define view where "view n = ExerciseView
      \<lparr>num = Integer 2, ExerciseViewProps.title = ''Cykly'', path = ''forbidden'',
       demand = n, hasSolution = True, jsml = ()\<rparr>" for n
  note lookup = demandText_lookup [where 'j = unit]
  have three: "arrayGet demandText (Integer 3) = Value ''zapni hlavu''"
    by (simp add: demandText_def)
  from lookup [where d = 3, THEN conjunct1] three
  have labelled: "elementsByClass ''demand-text'' (view (Integer 3))
        = [Element (Host ''div'') [className ''demand-text''] [Text ''zapni hlavu'']]"
    by (auto simp: view_def)
  have zero: "elementsByClass ''demand-text'' (view (Integer 0))
        = [Element (Host ''div'') [className ''demand-text''] [NullNode]]"
    unfolding view_def
    by (rule lookup [THEN conjunct2, THEN conjunct2, THEN conjunct1, THEN mp]) simp
  have outside: "elementsByClass ''demand-text'' (view n)
        = [Element (Host ''div'') [className ''demand-text''] [UndefinedNode]]"
    if "n = Other t \<or> (n = Integer d \<and> (d < 0 \<or> 5 < d))" for n t d
    unfolding view_def
    by (rule lookup [where d = d and t = t, THEN conjunct2, THEN conjunct2, THEN conjunct2,
          THEN conjunct2, THEN conjunct2, THEN conjunct1, THEN mp])
       (use that in simp)
  have six: "elementsByClass ''demand-text'' (view (Integer 6))
        = [Element (Host ''div'') [className ''demand-text''] [UndefinedNode]]"
    by (rule outside [where d = 6 and t = "[]"]) simp
  have minus: "elementsByClass ''demand-text'' (view (Integer (- 1)))
        = [Element (Host ''div'') [className ''demand-text''] [UndefinedNode]]"
    by (rule outside [where d = "- 1" and t = "[]"]) simp
  have fraction: "elementsByClass ''demand-text'' (view (Other ''2.5''))
        = [Element (Host ''div'') [className ''demand-text''] [UndefinedNode]]"
    by (rule outside [where d = 0 and t = "''2.5''"]) simp
  show ?thesis
    using three labelled zero six minus fraction unfolding view_def by simp
qed

text \<open>
  Claim C3.  In the exercise view with \<^verbatim>\<open>hasSolution\<close> true, the solution control is the
  locked element (the \<^verbatim>\<open>entry-link--locked\<close> span with its lock icon, and no hyperlink
  anywhere in the view) exactly when the path is the string \<^verbatim>\<open>forbidden\<close>, and otherwise
  it is the one hyperlink of the view, to that path; either way it is the only child of
  the controls element, the fourth child of the view.  With \<^verbatim>\<open>hasSolution\<close> false the view
  holds no controls element, no hyperlink and no lock: its fourth child is \<^verbatim>\<open>null\<close>.
\<close>

theorem ExerciseView_solution_control:
  "hrefs (ExerciseView p) = (if hasSolution p \<and> path p \<noteq> ''forbidden'' then [path p] else [])
   \<and> (''entry-link entry-link--locked btn'' \<in> set (classNames (ExerciseView p)))
       = (hasSolution p \<and> path p = ''forbidden'')
   \<and> (''icon-lock'' \<in> set (classNames (ExerciseView p)))
       = (hasSolution p \<and> path p = ''forbidden'')
   \<and> (''entry-link btn'' \<in> set (classNames (ExerciseView p)))
       = (hasSolution p \<and> path p \<noteq> ''forbidden'')
   \<and> (''exercise-assign__controls'' \<in> set (classNames (ExerciseView p))) = hasSolution p
   \<and> length (childNodes (ExerciseView p)) = 4
   \<and> (\<not> hasSolution p \<longrightarrow> childNodes (ExerciseView p) ! 3 = NullNode)
   \<and> (hasSolution p
      \<longrightarrow> (\<exists>control.
            childNodes (ExerciseView p) ! 3
              = Element (Host ''div'') [className ''exercise-assign__controls''] [control]
            \<and> hrefs control = (if path p = ''forbidden'' then [] else [path p])
            \<and> (''icon-lock'' \<in> set (classNames control)) = (path p = ''forbidden'')))"
  by (simp add: ExerciseView_def className_def hrefs_child classNames_child)

theorem ExerciseView_solution_control_witness:
  "childNodes (ExerciseView
      \<lparr>num = Integer 2, ExerciseViewProps.title = ''Cykly'', path = ''/kurzy/daweb/cykly/reseni'',
       demand = Integer 3, hasSolution = False, jsml = ()\<rparr>) ! 3 = NullNode
   \<and> hrefs (ExerciseView
      \<lparr>num = Integer 2, ExerciseViewProps.title = ''Cykly'', path = ''/kurzy/daweb/cykly/reseni'',
       demand = Integer 3, hasSolution = True, jsml = ()\<rparr>) = [''/kurzy/daweb/cykly/reseni'']
   \<and> hrefs (ExerciseView
      \<lparr>num = Integer 2, ExerciseViewProps.title = ''Cykly'', path = ''forbidden'',
       demand = Integer 3, hasSolution = True, jsml = ()\<rparr>) = []
   \<and> ''icon-lock'' \<in> set (classNames (ExerciseView
      \<lparr>num = Integer 2, ExerciseViewProps.title = ''Cykly'', path = ''forbidden'',
       demand = Integer 3, hasSolution = True, jsml = ()\<rparr>))"
  using
    ExerciseView_solution_control [of
      "\<lparr>num = Integer 2, ExerciseViewProps.title = ''Cykly'', path = ''/kurzy/daweb/cykly/reseni'',
        demand = Integer 3, hasSolution = False, jsml = ()\<rparr>"]
    ExerciseView_solution_control [of
      "\<lparr>num = Integer 2, ExerciseViewProps.title = ''Cykly'', path = ''/kurzy/daweb/cykly/reseni'',
        demand = Integer 3, hasSolution = True, jsml = ()\<rparr>"]
    ExerciseView_solution_control [of
      "\<lparr>num = Integer 2, ExerciseViewProps.title = ''Cykly'', path = ''forbidden'',
        demand = Integer 3, hasSolution = True, jsml = ()\<rparr>"]
  by simp

section \<open>Properties of the server\<close>

lemma accessUser_Null: "accessUser Null = \<lparr>User.login = [], access = Registered\<rparr>"
  by (simp add: accessUser_def)

lemma accessUser_Value:
  "accessUser (Value a) = \<lparr>User.login = AccountUser.login (user a), access = Registered\<rparr>"
  by (simp add: accessUser_def)

lemma resolveAccount_auth:
  "auth req = auth req' \<Longrightarrow> resolveAccount ext db req = resolveAccount ext db req'"
  by (simp add: resolveAccount_def)

lemma resolveAccount_example_none:
  "resolveAccount exampleExternals db (exampleRequest segs None) = Null"
  by (simp add: resolveAccount_def exampleRequest_def)

lemma resolveAccount_example_alice:
  "resolveAccount exampleExternals [storedAlice]
     (exampleRequest segs (Some \<lparr>JwtPayload.login = ''alice''\<rparr>))
   = Value (exampleAccount storedAlice)"
  by (simp add: resolveAccount_def exampleRequest_def exampleExternals_def storedAlice_def)

lemma exampleAccount_alice:
  "AccountUser.login (user (exampleAccount storedAlice)) = ''alice''"
  "content (claims (exampleAccount storedAlice)) = [''/kurzy/daweb'']"
  by (simp_all add: exampleAccount_def storedAlice_def)

text \<open>
  Claim C2.  The default access check follows the configuration by exactly these rules:
  it is \<^verbatim>\<open>AccessGrantAll\<close> if \<^verbatim>\<open>config.defaultAccess\<close> is the string \<^verbatim>\<open>granted\<close> (and only
  then); otherwise, if \<^verbatim>\<open>config.defaultAccess.claims\<close> is defined, it is the claim check over
  the configured content claims; otherwise it is the claim check over the single claim
  \<^verbatim>\<open>/kurzy\<close>.
\<close>

theorem defaultAccessCheck_rules:
  "(defaultAccess config = DefaultAccessString ''granted''
      \<longrightarrow> defaultAccessCheck config u = AccessGrantAll)
   \<and> (defaultAccess config \<noteq> DefaultAccessString ''granted''
        \<and> claimsOf (defaultAccess config) = Some c
      \<longrightarrow> defaultAccessCheck config u = AccessClaimCheck u (content c))
   \<and> (defaultAccess config \<noteq> DefaultAccessString ''granted''
        \<and> claimsOf (defaultAccess config) = None
      \<longrightarrow> defaultAccessCheck config u = AccessClaimCheck u [''/kurzy''])
   \<and> (defaultAccessCheck config u = AccessGrantAll)
       = (defaultAccess config = DefaultAccessString ''granted'')"
  by (simp add: defaultAccessCheck_def split: option.splits)

theorem defaultAccessCheck_rules_witness:
  "defaultAccessCheck (exampleConfig (DefaultAccessString ''granted''))
       \<lparr>User.login = [], access = Registered\<rparr>
     = AccessGrantAll
   \<and> defaultAccessCheck
       (exampleConfig (DefaultAccessObject (Some \<lparr>content = [''/kurzy/daweb'', ''/blog'']\<rparr>)))
       \<lparr>User.login = [], access = Registered\<rparr>
     = AccessClaimCheck \<lparr>User.login = [], access = Registered\<rparr> [''/kurzy/daweb'', ''/blog'']
   \<and> defaultAccessCheck (exampleConfig (DefaultAccessObject None))
       \<lparr>User.login = [], access = Registered\<rparr>
     = AccessClaimCheck \<lparr>User.login = [], access = Registered\<rparr> [''/kurzy'']
   \<and> defaultAccessCheck (exampleConfig (DefaultAccessString ''denied''))
       \<lparr>User.login = [], access = Registered\<rparr>
     = AccessClaimCheck \<lparr>User.login = [], access = Registered\<rparr> [''/kurzy'']"
  using
    defaultAccessCheck_rules [where config = "exampleConfig (DefaultAccessString ''granted'')"]
    defaultAccessCheck_rules [where
      config = "exampleConfig (DefaultAccessObject (Some \<lparr>content = [''/kurzy/daweb'', ''/blog'']\<rparr>))"
      and c = "\<lparr>content = [''/kurzy/daweb'', ''/blog'']\<rparr>"]
    defaultAccessCheck_rules [where config = "exampleConfig (DefaultAccessObject None)"]
    defaultAccessCheck_rules [where config = "exampleConfig (DefaultAccessString ''denied'')"]
  by (simp add: exampleConfig_def)




text \<open>
  Claim C1.  The access check of a request handled by the catch-all route is composed
  from the request's authentication state alone (under the server's configuration and
  the stored accounts): two requests with the same token payload get the same access
  check, whatever else differs.  If no account is resolved (the account is \<^verbatim>\<open>null\<close>) it is
  the configured default access check; if an account is resolved it is the claim check
  over that account's content claims.  It is this check that the provider's props carry,
  and no state of an earlier request enters it.
\<close>

theorem requestAccessCheck_composed:
  "(resolveAccount ext db req = Null
      \<longrightarrow> requestAccessCheck config ext db req
          = Inr (defaultAccessCheck config \<lparr>User.login = [], access = Registered\<rparr>))
   \<and> (resolveAccount ext db req = Value a
      \<longrightarrow> requestAccessCheck config ext db req
          = Inr (AccessClaimCheck
                   \<lparr>User.login = AccountUser.login (user a), access = Registered\<rparr>
                   (content (claims a))))
   \<and> (auth req = auth req'
      \<longrightarrow> requestAccessCheck config ext db req = requestAccessCheck config ext db req')
   \<and> (case providerProps config cmsInstance ext db req of
         Inl e \<Rightarrow> requestAccessCheck config ext db req = Inl e
       | Inr props \<Rightarrow> requestAccessCheck config ext db req = Inr (accessCheck props))"
proof -
  have noAccount: "resolveAccount ext db req = Null
      \<longrightarrow> requestAccessCheck config ext db req
          = Inr (defaultAccessCheck config \<lparr>User.login = [], access = Registered\<rparr>)"
    by (simp add: requestAccessCheck_def providerAccessCheck_def accessUser_Null)
  have withAccount: "resolveAccount ext db req = Value a
      \<longrightarrow> requestAccessCheck config ext db req
          = Inr (AccessClaimCheck
                   \<lparr>User.login = AccountUser.login (user a), access = Registered\<rparr>
                   (content (claims a)))"
    by (simp add: requestAccessCheck_def providerAccessCheck_def accessUser_Value)
  have authOnly: "auth req = auth req'
      \<longrightarrow> requestAccessCheck config ext db req = requestAccessCheck config ext db req'"
    by (simp add: requestAccessCheck_def resolveAccount_auth [of req req'])
  have passed: "case providerProps config cmsInstance ext db req of
         Inl e \<Rightarrow> requestAccessCheck config ext db req = Inl e
       | Inr props \<Rightarrow> requestAccessCheck config ext db req = Inr (accessCheck props)"
    by (simp add: providerProps_def split: sum.splits)
  show ?thesis
    by (rule conjI [OF noAccount conjI [OF withAccount conjI [OF authOnly passed]]])
qed

theorem requestAccessCheck_composed_witness:
  "resolveAccount exampleExternals [storedAlice] (exampleRequest [''kurzy''] None) = Null
   \<and> requestAccessCheck (exampleConfig (DefaultAccessObject None)) exampleExternals [storedAlice]
       (exampleRequest [''kurzy''] None)
     = Inr (AccessClaimCheck \<lparr>User.login = [], access = Registered\<rparr> [''/kurzy''])
   \<and> resolveAccount exampleExternals [storedAlice]
       (exampleRequest [''kurzy''] (Some \<lparr>JwtPayload.login = ''alice''\<rparr>))
     = Value (exampleAccount storedAlice)
   \<and> requestAccessCheck (exampleConfig (DefaultAccessObject None)) exampleExternals [storedAlice]
       (exampleRequest [''kurzy''] (Some \<lparr>JwtPayload.login = ''alice''\<rparr>))
     = Inr (AccessClaimCheck \<lparr>User.login = ''alice'', access = Registered\<rparr> [''/kurzy/daweb''])
   \<and> requestAccessCheck (exampleConfig (DefaultAccessObject None)) exampleExternals [storedAlice]
       (exampleRequest [''blog'', ''prvni''] None)
     = requestAccessCheck (exampleConfig (DefaultAccessObject None)) exampleExternals
         [storedAlice] (exampleRequest [''kurzy''] None)"
proof -
  have sameAuth: "auth (exampleRequest [''blog'', ''prvni''] None)
                  = auth (exampleRequest [''kurzy''] None)"
    by (simp add: exampleRequest_def)
  have dflt: "defaultAccessCheck (exampleConfig (DefaultAccessObject None)) u
              = AccessClaimCheck u [''/kurzy'']" for u
    by (simp add: defaultAccessCheck_def exampleConfig_def)
  show ?thesis
    using sameAuth
      requestAccessCheck_composed [of exampleExternals "[storedAlice]"
        "exampleRequest [''kurzy''] None" "exampleConfig (DefaultAccessObject None)"
        _ "exampleRequest [''kurzy''] None" "()"]
      requestAccessCheck_composed [of exampleExternals "[storedAlice]"
        "exampleRequest [''kurzy''] (Some \<lparr>JwtPayload.login = ''alice''\<rparr>)"
        "exampleConfig (DefaultAccessObject None)" "exampleAccount storedAlice"
        "exampleRequest [''kurzy''] None" "()"]
      requestAccessCheck_composed [of exampleExternals "[storedAlice]"
        "exampleRequest [''blog'', ''prvni''] None" "exampleConfig (DefaultAccessObject None)"
        _ "exampleRequest [''kurzy''] None" "()"]
    by (simp add: resolveAccount_example_none resolveAccount_example_alice exampleAccount_alice
        dflt)
qed

text \<open>
  Claim C5.  For a request whose resolved account is an account, the access check the
  provider's props carry is the claim check over that account's content claims, whatever
  the configured default access is.  In particular, under the default access \<^verbatim>\<open>granted\<close>
  the request's access check is \<^verbatim>\<open>AccessGrantAll\<close> exactly when no account is resolved (the
  account is \<^verbatim>\<open>null\<close>).
\<close>

theorem account_claims_override_default:
  "(resolveAccount ext db req = Value a
      \<longrightarrow> (\<exists>props. providerProps config cmsInstance ext db req = Inr props
            \<and> accessCheck props
                = AccessClaimCheck
                    \<lparr>User.login = AccountUser.login (user a), access = Registered\<rparr>
                    (content (claims a))))
   \<and> (defaultAccess config = DefaultAccessString ''granted''
      \<longrightarrow> (requestAccessCheck config ext db req = Inr AccessGrantAll)
          = (resolveAccount ext db req = Null))"
proof -
  have claimCheck: "resolveAccount ext db req = Value a
      \<longrightarrow> (\<exists>props. providerProps config cmsInstance ext db req = Inr props
            \<and> accessCheck props
                = AccessClaimCheck
                    \<lparr>User.login = AccountUser.login (user a), access = Registered\<rparr>
                    (content (claims a)))"
    by (simp add: providerProps_def requestAccessCheck_def providerAccessCheck_def
        accessUser_Value)
  have granted: "defaultAccess config = DefaultAccessString ''granted''
      \<longrightarrow> (requestAccessCheck config ext db req = Inr AccessGrantAll)
          = (resolveAccount ext db req = Null)"
    by (cases "resolveAccount ext db req")
       (simp_all add: requestAccessCheck_def providerAccessCheck_def defaultAccessCheck_def)
  show ?thesis
    by (rule conjI [OF claimCheck granted])
qed

theorem account_claims_override_default_witness:
  "defaultAccess (exampleConfig (DefaultAccessString ''granted'')) = DefaultAccessString ''granted''
   \<and> resolveAccount exampleExternals [storedAlice]
       (exampleRequest [''kurzy''] (Some \<lparr>JwtPayload.login = ''alice''\<rparr>))
     = Value (exampleAccount storedAlice)
   \<and> (\<exists>props. providerProps (exampleConfig (DefaultAccessString ''granted'')) () exampleExternals
         [storedAlice] (exampleRequest [''kurzy''] (Some \<lparr>JwtPayload.login = ''alice''\<rparr>))
       = Inr props
       \<and> accessCheck props
         = AccessClaimCheck \<lparr>User.login = ''alice'', access = Registered\<rparr> [''/kurzy/daweb''])
   \<and> requestAccessCheck (exampleConfig (DefaultAccessString ''granted'')) exampleExternals
       [storedAlice] (exampleRequest [''kurzy''] (Some \<lparr>JwtPayload.login = ''alice''\<rparr>))
     \<noteq> Inr AccessGrantAll
   \<and> requestAccessCheck (exampleConfig (DefaultAccessString ''granted'')) exampleExternals
       [storedAlice] (exampleRequest [''kurzy''] None)
     = Inr AccessGrantAll"
proof -
  have cfg: "defaultAccess (exampleConfig (DefaultAccessString ''granted''))
             = DefaultAccessString ''granted''"
    by (simp add: exampleConfig_def)
  show ?thesis
    using cfg
      account_claims_override_default [of exampleExternals "[storedAlice]"
        "exampleRequest [''kurzy''] (Some \<lparr>JwtPayload.login = ''alice''\<rparr>)"
        "exampleAccount storedAlice" "exampleConfig (DefaultAccessString ''granted'')" "()"]
      account_claims_override_default [of exampleExternals "[storedAlice]"
        "exampleRequest [''kurzy''] None"
        "exampleAccount storedAlice" "exampleConfig (DefaultAccessString ''granted'')" "()"]
    by (simp add: resolveAccount_example_none resolveAccount_example_alice exampleAccount_alice)
qed

lemma toLowerCase_literals:
  "toLowerCase ''assets'' = ''assets''" "toLowerCase ''js'' = ''js''"
  "toLowerCase ''changelog'' = ''changelog''" "toLowerCase ''cms'' = ''cms''"
  "toLowerCase ''api'' = ''api''" "toLowerCase ''odhlasit'' = ''odhlasit''"
  "toLowerCase ''prihlasit'' = ''prihlasit''" "toLowerCase ''github'' = ''github''"
  "toLowerCase ''kurzy'' = ''kurzy''" "toLowerCase ''Kurzy'' = ''kurzy''"
  by (simp_all add: toLowerCase_def lowerChar_def)







text \<open>
  Claim C6.  On the GitHub callback, once GitHub has answered both requests: if no stored
  user has the GitHub login, the user record of lines 98 to 104 is saved, whose name is
  GitHub's name or, when GitHub supplies none, the login, and whose groups are empty;
  if a stored user is found nothing is saved.  In either case the response sets the
  cookie \<^verbatim>\<open>token\<close> to the payload that holds the user's login and nothing else, signed
  with the session secret, and redirects to the session's \<^verbatim>\<open>returnUrl\<close>, or to \<^verbatim>\<open>/\<close> when
  the session holds none.
\<close>

theorem prihlasitGithub_signs_in:
  assumes token: "axiosGetAccessToken ext (clientId (githubApp config))
                    (clientSecret (githubApp config)) (code (query req)) = Some data"
    and ghUser: "axiosGetGithubUser ext
                   (''token '' @ templateString (map_of (queryStringParse ext data) ''access_token''))
                 = Some githubUser"
  shows "\<exists>db' r. prihlasitGithub config ext db req = (db', Inr r)
      \<and> (case findOne ext db (GithubUser.login githubUser) of
           None \<Rightarrow>
             db' = save ext db (newUser githubUser)
             \<and> cookies r = [(''token'', jwtSign ext \<lparr>JwtPayload.login = GithubUser.login githubUser\<rparr>
                                        (sessionSecret config))]
         | Some found \<Rightarrow>
             db' = db
             \<and> cookies r = [(''token'', jwtSign ext \<lparr>JwtPayload.login = DbUser.login found\<rparr>
                                        (sessionSecret config))])
      \<and> DbUser.login (newUser githubUser) = GithubUser.login githubUser
      \<and> DbUser.name (newUser githubUser)
          = (case GithubUser.name githubUser of
               None \<Rightarrow> GithubUser.login githubUser | Some n \<Rightarrow> n)
      \<and> groups (newUser githubUser) = []
      \<and> status r = 302
      \<and> location r = Some (case Session.returnUrl (session req) of None \<Rightarrow> ''/'' | Some x \<Rightarrow> x)
      \<and> clearedCookies r = []
      \<and> body r = NoBody"
  using token ghUser
  by (simp add: prihlasitGithub_def newUser_def redirect_def split: option.splits)

theorem prihlasitGithub_signs_in_witness:
  "prihlasitGithub (exampleConfig (DefaultAccessObject None)) exampleExternals []
     (exampleRequest [''prihlasit'', ''github''] None)
   = ([\<lparr>DbUser.login = ''alice'', DbUser.name = ''alice'',
        avatarUrl = ''https://github.com/alice.png'', DbUser.email = None, groups = []\<rparr>],
      Inr \<lparr>status = 302, location = Some ''/kurzy'', cookies = [(''token'', ''s3cret:alice'')],
           clearedCookies = [], body = NoBody\<rparr>)
   \<and> prihlasitGithub (exampleConfig (DefaultAccessObject None)) exampleExternals [storedAlice]
     (exampleRequest [''prihlasit'', ''github''] None)
   = ([storedAlice],
      Inr \<lparr>status = 302, location = Some ''/kurzy'', cookies = [(''token'', ''s3cret:alice'')],
           clearedCookies = [], body = NoBody\<rparr>)"
proof -
  define config where "config = exampleConfig (DefaultAccessObject None)"
  define req where "req = exampleRequest [''prihlasit'', ''github''] None"
  have token: "axiosGetAccessToken exampleExternals (clientId (githubApp config))
                 (clientSecret (githubApp config)) (code (query req)) = Some ''access_token=good''"
    by (simp add: exampleExternals_def req_def exampleRequest_def)
  have ghUser: "axiosGetGithubUser exampleExternals
                  (''token '' @ templateString
                     (map_of (queryStringParse exampleExternals ''access_token=good'')
                        ''access_token''))
                = Some alice"
    by (simp add: exampleExternals_def templateString_def)
  have fresh: "findOne exampleExternals [] (GithubUser.login alice) = None"
    by (simp add: exampleExternals_def)
  have known: "findOne exampleExternals [storedAlice] (GithubUser.login alice) = Some storedAlice"
    by (simp add: exampleExternals_def alice_def storedAlice_def)
  have target: "(case Session.returnUrl (session req) of None \<Rightarrow> ''/'' | Some x \<Rightarrow> x) = ''/kurzy''"
    by (simp add: req_def exampleRequest_def)
  have secret: "sessionSecret config = ''s3cret''"
    by (simp add: config_def exampleConfig_def)
  from prihlasitGithub_signs_in [OF token ghUser, of "[]"]
  obtain db1 r1 where first: "prihlasitGithub config exampleExternals [] req = (db1, Inr r1)"
    and db1: "db1 = save exampleExternals [] (newUser alice)"
    and r1: "cookies r1 = [(''token'', jwtSign exampleExternals
                              \<lparr>JwtPayload.login = GithubUser.login alice\<rparr> ''s3cret'')]"
      "status r1 = 302" "location r1 = Some ''/kurzy''" "clearedCookies r1 = []" "body r1 = NoBody"
    by (auto simp: fresh target secret)
  from prihlasitGithub_signs_in [OF token ghUser, of "[storedAlice]"]
  obtain db2 r2 where second: "prihlasitGithub config exampleExternals [storedAlice] req = (db2, Inr r2)"
    and db2: "db2 = [storedAlice]"
    and r2: "cookies r2 = [(''token'', jwtSign exampleExternals
                              \<lparr>JwtPayload.login = DbUser.login storedAlice\<rparr> ''s3cret'')]"
      "status r2 = 302" "location r2 = Some ''/kurzy''" "clearedCookies r2 = []" "body r2 = NoBody"
    by (auto simp: known target secret)
  have "db1 = [\<lparr>DbUser.login = ''alice'', DbUser.name = ''alice'',
        avatarUrl = ''https://github.com/alice.png'', DbUser.email = None, groups = []\<rparr>]"
    by (simp add: db1 exampleExternals_def newUser_def alice_def)
  moreover have "r1 = \<lparr>status = 302, location = Some ''/kurzy'',
                       cookies = [(''token'', ''s3cret:alice'')],
                       clearedCookies = [], body = NoBody\<rparr>"
    using r1 by (cases r1) (simp add: exampleExternals_def alice_def)
  moreover have "r2 = \<lparr>status = 302, location = Some ''/kurzy'',
                       cookies = [(''token'', ''s3cret:alice'')],
                       clearedCookies = [], body = NoBody\<rparr>"
    using r2 by (cases r2) (simp add: exampleExternals_def storedAlice_def)
  ultimately show ?thesis
    using first second db2 unfolding config_def req_def by simp
qed

text \<open>
  Claim C9.  A \<^verbatim>\<open>GET\<close> request whose path is \<^verbatim>\<open>/kurzy/:course/:chapter\<close> is answered with a
  301 redirect to \<^verbatim>\<open>/kurzy/:course/#:chapter\<close>.  The response is the same whatever the
  renderer, the stored accounts, the configuration and the request's token are, and the
  database is left as it was: nothing is rendered and no access check is made for it.
\<close>

theorem kurzy_chapter_redirects:
  assumes "isGet req" and "pathSegments req = [k, course, chapter]"
    and "toLowerCase k = ''kurzy''" and "course \<noteq> []" and "chapter \<noteq> []"
  shows "server config stats cmsInstance ext db req
         = (db, Inr (redirect 301 (''/kurzy/'' @ course @ ''/#'' @ chapter)))"
  using assms
  by (simp add: server_def routes_def useAt_def getAt_def mounted_def toLowerCase_literals
      kurzyChapter_def templateString_def)

theorem kurzy_chapter_redirects_witness:
  "isGet (exampleRequest [''Kurzy'', ''daweb'', ''uvod''] None)
   \<and> server (exampleConfig (DefaultAccessObject None)) exampleStats () exampleExternals
       [storedAlice] (exampleRequest [''Kurzy'', ''daweb'', ''uvod''] None)
     = ([storedAlice],
        Inr \<lparr>status = 301, location = Some ''/kurzy/daweb/#uvod'', cookies = [],
             clearedCookies = [], body = NoBody\<rparr>)"
proof -
  have get: "isGet (exampleRequest [''Kurzy'', ''daweb'', ''uvod''] None)"
    by (simp add: isGet_def exampleRequest_def)
  have segs: "pathSegments (exampleRequest [''Kurzy'', ''daweb'', ''uvod''] None)
              = [''Kurzy'', ''daweb'', ''uvod'']"
    by (simp add: exampleRequest_def)
  have "server (exampleConfig (DefaultAccessObject None)) exampleStats () exampleExternals
          [storedAlice] (exampleRequest [''Kurzy'', ''daweb'', ''uvod''] None)
        = ([storedAlice], Inr (redirect 301 (''/kurzy/'' @ ''daweb'' @ ''/#'' @ ''uvod'')))"
    by (rule kurzy_chapter_redirects [OF get segs]) (simp_all add: toLowerCase_literals)
  with get show ?thesis
    by (simp add: redirect_def)
qed




end
